theory Spec2Isabelle
  imports Complex_Main "HOL-Library.AList"
begin

section \<open>The example integration of inorbit\_edge\_executor\<close>

text \<open>
  The repository's own code is \<^verbatim>\<open>example.py\<close>: a custom behaviour-tree leaf
  (\<^verbatim>\<open>MyWaypointNode\<close>), a node builder and a tree builder that put it in place of the
  default waypoint leaf, and a \<^verbatim>\<open>main\<close> that submits one mission. The classes it
  derives from (\<^verbatim>\<open>BehaviorTree\<close>, \<^verbatim>\<open>NodeFromStepBuilder\<close>,
  \<^verbatim>\<open>DefaultTreeBuilder\<close>) and the data types it imports are not part of the sources.
\<close>

subsection \<open>Poses and the objects that hold them\<close>

text \<open>
  Modelled from the spec: the declaration of \<^verbatim>\<open>Pose\<close> (imported from
  \<^verbatim>\<open>inorbit_edge_executor.datatypes\<close>) is missing. The spec gives a pose the fields
  x, y, theta, frameId and waypointId, and these are the five keys of every waypoint that
  \<^verbatim>\<open>main\<close> writes (lines 155-161, 171-177, 184-190). The three coordinates are
  numbers and the two identifiers are strings, so every field holds an immutable value.
\<close>

record Pose =
  pose_x :: real
  pose_y :: real
  pose_theta :: real
  frameId :: string
  waypointId :: string

text \<open>
  A pose is a Python object: two variables can name the same pose, and an assignment to a
  field through one of them is seen through the other. Objects therefore live in a store,
  and a variable holds an address. \<open>next_addr\<close> is the first address never handed out;
  a new object is placed there.
\<close>

type_synonym addr = nat

record heap =
  cells :: "addr \<Rightarrow> Pose"
  next_addr :: addr

text \<open>
  \<^verbatim>\<open>waypoint.copy()\<close>: a new object whose fields have the values of the old one's.
  The copy is shallow, which for five immutable fields is a full copy.
\<close>

definition Pose_copy :: "heap \<Rightarrow> addr \<Rightarrow> addr \<times> heap" where
  "Pose_copy h a =
     (next_addr h,
      h\<lparr>cells := (cells h)(next_addr h := cells h a), next_addr := Suc (next_addr h)\<rparr>)"

subsection \<open>MyWaypointNode\<close>

text \<open>
  \<^verbatim>\<open>context.robot_api.robot_id\<close> is all that the node reads from its builder context.
\<close>

record RobotApi =
  robot_id :: string

record BehaviorTreeBuilderContext =
  robot_api :: RobotApi

text \<open>
  \<^verbatim>\<open>class MyWaypointNode(BehaviorTree)\<close>. The part of the object that belongs to the
  base class is \<open>super\<close>, of a type \<open>'b\<close> that is left open; \<open>'w\<close> is what the
  \<^verbatim>\<open>waypoint\<close> attribute holds: an address where aliasing matters, the pose itself
  where only its value does.
\<close>

record ('b, 'w) MyWaypointNode =
  super :: 'b
  waypoint :: 'w
  node_robot_id :: string

text \<open>
  Lines 51-54. \<^verbatim>\<open>super().__init__(*args, **kwargs)\<close> is the base class's constructor,
  a parameter here; the waypoint is stored as it was passed, without a copy.
\<close>

definition MyWaypointNode_init ::
  "('a list \<Rightarrow> 'k \<Rightarrow> 'b) \<Rightarrow> BehaviorTreeBuilderContext \<Rightarrow> 'w \<Rightarrow> 'a list \<Rightarrow> 'k
     \<Rightarrow> ('b, 'w) MyWaypointNode" where
  "MyWaypointNode_init super_init ctx wp args kwargs =
     \<lparr>super = super_init args kwargs, waypoint = wp, node_robot_id = robot_id (robot_api ctx)\<rparr>"

text \<open>
  A dumped record is a dictionary. Its \<^verbatim>\<open>"waypoint"\<close> entry refers to a pose object;
  the entries that come from the base class are plain values of a type \<open>'v\<close>.
\<close>

datatype 'v field = PoseRef addr | BaseValue 'v

text \<open>
  Lines 62-65. \<^verbatim>\<open>super().dump_object()\<close> is the base class's dump, a parameter here
  that gives the base record of the node's base part.
\<close>

definition dump_object ::
  "('b \<Rightarrow> string \<rightharpoonup> 'v) \<Rightarrow> heap \<Rightarrow> ('b, addr) MyWaypointNode
     \<Rightarrow> (string \<rightharpoonup> 'v field) \<times> heap" where
  "dump_object super_dump_object h self =
     (let obj = map_option BaseValue \<circ> super_dump_object (super self);
          (a, h') = Pose_copy h (waypoint self)
      in (obj(''waypoint'' \<mapsto> PoseRef a), h'))"

text \<open>
  Lines 67-70. The class method ignores \<^verbatim>\<open>cls\<close> and calls the constructor with the
  context, the waypoint and the remaining keywords, and with no positional arguments.
\<close>

definition from_object ::
  "('a list \<Rightarrow> 'k \<Rightarrow> 'b) \<Rightarrow> BehaviorTreeBuilderContext \<Rightarrow> 'w \<Rightarrow> 'k
     \<Rightarrow> ('b, 'w) MyWaypointNode" where
  "from_object super_init ctx wp kwargs = MyWaypointNode_init super_init ctx wp [] kwargs"

text \<open>
  What a holder of the dumped record can do to it afterwards: bind a key to a plain value,
  delete a key, or change the pose object that the \<^verbatim>\<open>"waypoint"\<close> entry refers to in
  place (an assignment to one of its fields is the case \<open>f = (\<lambda>p. p\<lparr>pose_x := v\<rparr>)\<close>).
  Where the entry is no pose any more, the last one raises and changes nothing.
\<close>

datatype 'v mutation = SetItem string 'v | DelItem string | MutateWaypoint "Pose \<Rightarrow> Pose"

fun mutate :: "'v mutation \<Rightarrow> (string \<rightharpoonup> 'v field) \<times> heap \<Rightarrow> (string \<rightharpoonup> 'v field) \<times> heap" where
  "mutate (SetItem k v) (obj, h) = (obj(k \<mapsto> BaseValue v), h)"
| "mutate (DelItem k) (obj, h) = (obj(k := None), h)"
| "mutate (MutateWaypoint f) (obj, h) =
     (case obj ''waypoint'' of
        Some (PoseRef a) \<Rightarrow> (obj, h\<lparr>cells := (cells h)(a := f (cells h a))\<rparr>)
      | _ \<Rightarrow> (obj, h))"

fun mutate_all :: "'v mutation list \<Rightarrow> (string \<rightharpoonup> 'v field) \<times> heap \<Rightarrow> (string \<rightharpoonup> 'v field) \<times> heap" where
  "mutate_all [] s = s"
| "mutate_all (m # ms) s = mutate_all ms (mutate m s)"

subsection \<open>Missions and their steps\<close>

text \<open>
  Modelled from the spec: the step classes \<^verbatim>\<open>MissionStepSetData\<close>,
  \<^verbatim>\<open>MissionStepPoseWaypoint\<close> and \<^verbatim>\<open>MissionStepIf\<close>, \<^verbatim>\<open>MissionDefinition\<close>
  and \<^verbatim>\<open>Mission\<close> are imported by \<^verbatim>\<open>example.py\<close> and declared elsewhere. A step has
  a label, an optional \<^verbatim>\<open>completeTask\<close> and the payload of its kind; these are the keys
  that \<^verbatim>\<open>main\<close> gives to \<^verbatim>\<open>model_validate\<close> (lines 142-194).
\<close>

type_synonym mission_data = "(string \<times> string) list"

datatype step =
    MissionStepSetData string "string option" mission_data
  | MissionStepPoseWaypoint string "string option" Pose
  | MissionStepIf string "string option" string "step list" "step list"

record MissionDefinition =
  definition_label :: string
  steps :: "step list"

record Mission =
  mission_id :: string
  mission_robot_id :: string
  mission_definition :: MissionDefinition
  arguments :: mission_data

text \<open>
  Lines 136-198 of \<^verbatim>\<open>main\<close>: the mission of the example. Its id is a fresh UUID and its
  robot comes from the environment variable \<^verbatim>\<open>ROBOT_ID\<close>; both are parameters.
\<close>

definition example_waypoint :: "string \<Rightarrow> Pose" where
  "example_waypoint wid =
     \<lparr>pose_x = 0, pose_y = 0, pose_theta = 0, frameId = ''map'', waypointId = wid\<rparr>"

definition example_mission :: "string \<Rightarrow> string \<Rightarrow> Mission" where
  "example_mission mid rid =
     \<lparr>mission_id = mid,
      mission_robot_id = rid,
      mission_definition =
        \<lparr>definition_label = ''A mission definition'',
         steps =
           [MissionStepSetData ''set some data'' (Some ''step 0'') [(''key'', ''value'')],
            MissionStepSetData ''set more data'' (Some ''step 1'') [(''key2'', ''value2'')],
            MissionStepPoseWaypoint ''go to waypoint'' (Some ''step 2'') (example_waypoint ''wp1''),
            MissionStepIf ''if'' None ''0 > 1''
              [MissionStepPoseWaypoint ''go to waypoint A'' (Some ''step 3'') (example_waypoint ''wpA'')]
              [MissionStepPoseWaypoint ''go to waypoint B'' (Some ''step 4'') (example_waypoint ''wpB'')]]\<rparr>,
      arguments = [(''arg1'', ''value1'')]\<rparr>"

subsection \<open>Behaviour-tree nodes\<close>

text \<open>
  Modelled from the spec: the base class \<^verbatim>\<open>BehaviorTree\<close> and the node kinds of the
  engine are missing. A node has the states
  \<open>PENDING \<rightarrow> RUNNING \<rightarrow> {SUCCEEDED, FAILED, CANCELLED}\<close>; it carries its step's label and,
  where the step has one, the external task to mark done on success.
\<close>

datatype node_state = PENDING | RUNNING | SUCCEEDED | FAILED | CANCELLED

record base =
  label :: "string option"
  state :: node_state
  complete_task :: "string option"

text \<open>
  Modelled from the spec: \<^verbatim>\<open>BehaviorTree.__init__\<close> is missing. The one keyword that
  \<^verbatim>\<open>example.py\<close> passes to it is \<^verbatim>\<open>label\<close> (line 84); a new node is \<open>PENDING\<close>.
\<close>

definition BehaviorTree_init :: "string list \<Rightarrow> (string \<times> string) list \<Rightarrow> base" where
  "BehaviorTree_init args kwargs =
     \<lparr>label = map_of kwargs ''label'', state = PENDING, complete_task = None\<rparr>"

text \<open>
  Modelled from the spec: the composite kinds (sequence, conditional) and the default
  leaves (data-set, pose-waypoint) are missing. A conditional holds its raw expression and
  the two sub-sequences compiled from the \<^verbatim>\<open>then\<close> and \<^verbatim>\<open>else\<close> step lists. The custom
  leaf is the \<^verbatim>\<open>MyWaypointNode\<close> of \<^verbatim>\<open>example.py\<close>.
\<close>

datatype node =
    Sequence base "node list"
  | Conditional base string node node
  | SetDataLeaf base mission_data
  | PoseWaypointLeaf base Pose
  | CustomLeaf "(base, Pose) MyWaypointNode"

fun node_base :: "node \<Rightarrow> base" where
  "node_base (Sequence b cs) = b"
| "node_base (Conditional b e th el) = b"
| "node_base (SetDataLeaf b kv) = b"
| "node_base (PoseWaypointLeaf b wp) = b"
| "node_base (CustomLeaf n) = super n"

definition node_state :: "node \<Rightarrow> node_state" where
  "node_state n = state (node_base n)"

text \<open>
  Modelled from the spec: how a node comes to know its step's \<^verbatim>\<open>completeTask\<close> is not
  in the sources (the custom node builder passes on the label and the waypoint only, line
  84). The tree builder is taken to attach it to the node that the node builder returned
  for the step.
\<close>

fun with_complete_task :: "string option \<Rightarrow> node \<Rightarrow> node" where
  "with_complete_task t (Sequence b cs) = Sequence (b\<lparr>complete_task := t\<rparr>) cs"
| "with_complete_task t (Conditional b e th el) = Conditional (b\<lparr>complete_task := t\<rparr>) e th el"
| "with_complete_task t (SetDataLeaf b kv) = SetDataLeaf (b\<lparr>complete_task := t\<rparr>) kv"
| "with_complete_task t (PoseWaypointLeaf b wp) = PoseWaypointLeaf (b\<lparr>complete_task := t\<rparr>) wp"
| "with_complete_task t (CustomLeaf n) = CustomLeaf (n\<lparr>super := (super n)\<lparr>complete_task := t\<rparr>\<rparr>)"

text \<open>The nodes of a tree, parents before children, children in order.\<close>

fun nodes :: "node \<Rightarrow> node list" where
  "nodes (Sequence b cs) = Sequence b cs # concat (map nodes cs)"
| "nodes (Conditional b e th el) = Conditional b e th el # nodes th @ nodes el"
| "nodes (SetDataLeaf b kv) = [SetDataLeaf b kv]"
| "nodes (PoseWaypointLeaf b wp) = [PoseWaypointLeaf b wp]"
| "nodes (CustomLeaf n) = [CustomLeaf n]"

definition states_labelled :: "string \<Rightarrow> node \<Rightarrow> node_state list" where
  "states_labelled l t = map node_state (filter (\<lambda>n. label (node_base n) = Some l) (nodes t))"

subsection \<open>Node builder and tree builder\<close>

text \<open>
  Modelled from the spec: \<^verbatim>\<open>NodeFromStepBuilder\<close> is missing. It translates one step
  into one node by a visitor method per step kind, and a subclass replaces the method of
  one kind while the rest fall back to the default. A builder is made for a context.
\<close>

record node_builder =
  visit_set_data :: "string \<Rightarrow> mission_data \<Rightarrow> node"
  visit_pose_waypoint :: "string \<Rightarrow> Pose \<Rightarrow> node"

definition NodeFromStepBuilder :: "BehaviorTreeBuilderContext \<Rightarrow> node_builder" where
  "NodeFromStepBuilder ctx =
     \<lparr>visit_set_data = (\<lambda>l kv. SetDataLeaf (BehaviorTree_init [] [(''label'', l)]) kv),
      visit_pose_waypoint = (\<lambda>l wp. PoseWaypointLeaf (BehaviorTree_init [] [(''label'', l)]) wp)\<rparr>"

text \<open>
  Lines 77-84: \<^verbatim>\<open>MyNodeFromStepBuilder\<close> overrides \<^verbatim>\<open>visit_pose_waypoint\<close>, which now
  constructs a \<^verbatim>\<open>MyWaypointNode\<close> from the builder's context, the step's label (as the
  keyword \<^verbatim>\<open>label\<close>) and the step's waypoint.
\<close>

definition MyNodeFromStepBuilder :: "BehaviorTreeBuilderContext \<Rightarrow> node_builder" where
  "MyNodeFromStepBuilder ctx =
     (NodeFromStepBuilder ctx)
       \<lparr>visit_pose_waypoint :=
          (\<lambda>l wp. CustomLeaf (MyWaypointNode_init BehaviorTree_init ctx wp [] [(''label'', l)]))\<rparr>"

text \<open>
  Modelled from the spec: \<^verbatim>\<open>DefaultTreeBuilder\<close> is missing. It takes the node builder
  to use, walks the steps in order and makes a root sequence of their nodes; for an
  \<^verbatim>\<open>If\<close> step it compiles the two step lists into two sub-sequences and wraps them in a
  conditional that holds the expression unevaluated.
\<close>

fun build_step :: "node_builder \<Rightarrow> step \<Rightarrow> node"
  and build_steps :: "node_builder \<Rightarrow> step list \<Rightarrow> node list" where
  "build_step nb (MissionStepSetData l ct kv) = with_complete_task ct (visit_set_data nb l kv)"
| "build_step nb (MissionStepPoseWaypoint l ct wp) = with_complete_task ct (visit_pose_waypoint nb l wp)"
| "build_step nb (MissionStepIf l ct e th el) =
     with_complete_task ct
       (Conditional (BehaviorTree_init [] [(''label'', l)]) e
          (Sequence (BehaviorTree_init [] []) (build_steps nb th))
          (Sequence (BehaviorTree_init [] []) (build_steps nb el)))"
| "build_steps nb [] = []"
| "build_steps nb (s # ss) = build_step nb s # build_steps nb ss"

definition DefaultTreeBuilder ::
  "(BehaviorTreeBuilderContext \<Rightarrow> node_builder) \<Rightarrow> BehaviorTreeBuilderContext \<Rightarrow> MissionDefinition \<Rightarrow> node" where
  "DefaultTreeBuilder step_builder ctx d =
     Sequence (BehaviorTree_init [] []) (build_steps (step_builder ctx) (steps d))"

text \<open>Lines 87-91: \<^verbatim>\<open>MyTreeBuilder\<close> is the default tree builder with the custom node builder.\<close>

definition MyTreeBuilder :: "BehaviorTreeBuilderContext \<Rightarrow> MissionDefinition \<Rightarrow> node" where
  "MyTreeBuilder = DefaultTreeBuilder MyNodeFromStepBuilder"

subsection \<open>Execution\<close>

text \<open>
  Modelled from the spec: the platform API is external. The engine consumes
  \<^verbatim>\<open>evaluate(expression, data) -> bool|error\<close>, \<^verbatim>\<open>navigateTo(pose)\<close> (which ends in
  completion or failure) and \<^verbatim>\<open>reportTaskComplete(taskId)\<close> (which can fail); a data-set
  leaf succeeds unless the merge target is invalid.
\<close>

datatype error = EvaluationError string

record env =
  evaluate :: "string \<Rightarrow> mission_data \<Rightarrow> error + bool"
  navigateTo :: "Pose \<Rightarrow> bool"
  reportTaskComplete :: "string \<Rightarrow> bool"
  merge_target_valid :: "mission_data \<Rightarrow> bool"

text \<open>
  What an execution does that can be seen from outside, in order: a node starts, the
  custom leaf prints, the robot is sent to a pose, a task is reported complete.
\<close>

datatype message = Sending string Pose | Waiting string Pose | Reached string Pose

datatype event = Started "string option" | Printed message | NavigateTo Pose | TaskComplete string

text \<open>
  Lines 56-60, \<^verbatim>\<open>MyWaypointNode._execute\<close>: three lines are printed, with a sleep of one
  second before the last; nothing is raised, so the node's execution succeeds.
\<close>

definition MyWaypointNode_execute :: "('b, Pose) MyWaypointNode \<Rightarrow> message list" where
  "MyWaypointNode_execute self =
     [Sending (node_robot_id self) (waypoint self),
      Waiting (node_robot_id self) (waypoint self),
      Reached (node_robot_id self) (waypoint self)]"

definition terminal :: "node_state \<Rightarrow> bool" where
  "terminal s \<longleftrightarrow> s = SUCCEEDED \<or> s = FAILED \<or> s = CANCELLED"

text \<open>
  Modelled from the spec: a data-set leaf merges its payload into the mission-scoped data,
  key by key.
\<close>

definition merge_data :: "mission_data \<Rightarrow> mission_data \<Rightarrow> mission_data" where
  "merge_data d kv = foldl (\<lambda>m (k, v). AList.update k v m) d kv"

text \<open>
  Modelled from the spec: a node whose work is done marks its step's external task
  complete, if it has one, and is \<open>SUCCEEDED\<close>; a report that fails makes it \<open>FAILED\<close>.
\<close>

definition succeed :: "env \<Rightarrow> base \<Rightarrow> base \<times> event list" where
  "succeed env b =
     (case complete_task b of
        None \<Rightarrow> (b\<lparr>state := SUCCEEDED\<rparr>, [])
      | Some t \<Rightarrow>
          if reportTaskComplete env t then (b\<lparr>state := SUCCEEDED\<rparr>, [TaskComplete t])
          else (b\<lparr>state := FAILED\<rparr>, []))"

text \<open>
  Modelled from the spec: the execution engine is missing. This is a run without a
  cancellation request. A node in a terminal state stays as it is. A sequence executes its
  children in order, stops at the first child that does not succeed and takes that
  child's state, and succeeds when all have. A conditional evaluates its expression on
  the mission data of that moment; an error makes it \<open>FAILED\<close> with no branch run,
  otherwise the one selected branch is executed and decides the outcome. The result is
  the tree with its new states, the mission data and the events in order.
\<close>

fun execute :: "env \<Rightarrow> mission_data \<Rightarrow> node \<Rightarrow> node \<times> mission_data \<times> event list"
  and execute_children ::
    "env \<Rightarrow> mission_data \<Rightarrow> node list \<Rightarrow> node list \<times> mission_data \<times> event list \<times> node_state" where
  "execute env d (Sequence b cs) =
     (if terminal (state b) then (Sequence b cs, d, [])
      else
        (case execute_children env d cs of
           (cs', d', ev, st) \<Rightarrow>
             if st = SUCCEEDED then
               (case succeed env b of (b', ev') \<Rightarrow> (Sequence b' cs', d', Started (label b) # ev @ ev'))
             else (Sequence (b\<lparr>state := st\<rparr>) cs', d', Started (label b) # ev)))"
| "execute env d (Conditional b e th el) =
     (if terminal (state b) then (Conditional b e th el, d, [])
      else
        (case evaluate env e d of
           Inl err \<Rightarrow> (Conditional (b\<lparr>state := FAILED\<rparr>) e th el, d, [Started (label b)])
         | Inr True \<Rightarrow>
             (case execute env d th of
                (th', d', ev) \<Rightarrow>
                  if node_state th' = SUCCEEDED then
                    (case succeed env b of
                       (b', ev') \<Rightarrow> (Conditional b' e th' el, d', Started (label b) # ev @ ev'))
                  else (Conditional (b\<lparr>state := node_state th'\<rparr>) e th' el, d', Started (label b) # ev))
         | Inr False \<Rightarrow>
             (case execute env d el of
                (el', d', ev) \<Rightarrow>
                  if node_state el' = SUCCEEDED then
                    (case succeed env b of
                       (b', ev') \<Rightarrow> (Conditional b' e th el', d', Started (label b) # ev @ ev'))
                  else (Conditional (b\<lparr>state := node_state el'\<rparr>) e th el', d', Started (label b) # ev))))"
| "execute env d (SetDataLeaf b kv) =
     (if terminal (state b) then (SetDataLeaf b kv, d, [])
      else if merge_target_valid env d then
        (case succeed env b of (b', ev') \<Rightarrow> (SetDataLeaf b' kv, merge_data d kv, Started (label b) # ev'))
      else (SetDataLeaf (b\<lparr>state := FAILED\<rparr>) kv, d, [Started (label b)]))"
| "execute env d (PoseWaypointLeaf b wp) =
     (if terminal (state b) then (PoseWaypointLeaf b wp, d, [])
      else if navigateTo env wp then
        (case succeed env b of
           (b', ev') \<Rightarrow> (PoseWaypointLeaf b' wp, d, Started (label b) # NavigateTo wp # ev'))
      else (PoseWaypointLeaf (b\<lparr>state := FAILED\<rparr>) wp, d, [Started (label b), NavigateTo wp]))"
| "execute env d (CustomLeaf n) =
     (if terminal (state (super n)) then (CustomLeaf n, d, [])
      else
        (case succeed env (super n) of
           (b', ev') \<Rightarrow>
             (CustomLeaf (n\<lparr>super := b'\<rparr>), d,
              Started (label (super n)) # map Printed (MyWaypointNode_execute n) @ ev')))"
| "execute_children env d [] = ([], d, [], SUCCEEDED)"
| "execute_children env d (c # cs) =
     (case execute env d c of
        (c', d', ev) \<Rightarrow>
          if node_state c' = SUCCEEDED then
            (case execute_children env d' cs of
               (cs', d'', ev', st) \<Rightarrow> (c' # cs', d'', ev @ ev', st))
          else (c' # cs, d', ev, node_state c'))"

text \<open>Projections of a run's events.\<close>

fun started :: "event list \<Rightarrow> string option list" where
  "started [] = []"
| "started (Started l # es) = l # started es"
| "started (e # es) = started es"

fun printed :: "event list \<Rightarrow> message list" where
  "printed [] = []"
| "printed (Printed m # es) = m # printed es"
| "printed (e # es) = printed es"

fun task_completions :: "event list \<Rightarrow> string list" where
  "task_completions [] = []"
| "task_completions (TaskComplete t # es) = t # task_completions es"
| "task_completions (e # es) = task_completions es"

text \<open>The two branches of every conditional of a tree, in the order of \<open>nodes\<close>.\<close>

fun branches_of :: "node \<Rightarrow> (node \<times> node) list" where
  "branches_of (Conditional b e th el) = [(th, el)]"
| "branches_of n = []"

definition branches :: "node \<Rightarrow> (node \<times> node) list" where
  "branches t = concat (map branches_of (nodes t))"

definition branch_states :: "node \<Rightarrow> (node_state list \<times> node_state list) list" where
  "branch_states t =
     map (\<lambda>(th, el). (map node_state (nodes th), map node_state (nodes el))) (branches t)"

text \<open>
  A platform on which \<^verbatim>\<open>0 > 1\<close> is false and every other expression is an error, every
  navigation and every report succeeds, and every merge target is valid.
\<close>

definition example_env :: env where
  "example_env =
     \<lparr>evaluate = (\<lambda>e d. if e = ''0 > 1'' then Inr False else Inl (EvaluationError e)),
      navigateTo = (\<lambda>wp. True),
      reportTaskComplete = (\<lambda>t. True),
      merge_target_valid = (\<lambda>d. True)\<rparr>"

text \<open>The custom node as its constructor made it, with its step's task attached.\<close>

definition with_complete_task_init ::
  "string \<Rightarrow> (base, Pose) MyWaypointNode \<Rightarrow> (base, Pose) MyWaypointNode" where
  "with_complete_task_init t n = n\<lparr>super := (super n)\<lparr>complete_task := Some t\<rparr>\<rparr>"

section \<open>Properties\<close>

subsection \<open>The dumped waypoint is a copy\<close>

lemma Pose_copy_fresh:
  "Pose_copy h a = (b, h') \<Longrightarrow>
     b = next_addr h \<and> cells h' b = cells h a \<and> (\<forall>c. c \<noteq> b \<longrightarrow> cells h' c = cells h c)"
  by (auto simp: Pose_copy_def)

text \<open>
  Mutations of a record whose \<^verbatim>\<open>"waypoint"\<close> entry is not the address \<open>w\<close> leave the
  object at \<open>w\<close> alone, and the entry never comes to be \<open>w\<close>.
\<close>

lemma mutate_keeps_cell:
  assumes "obj ''waypoint'' \<noteq> Some (PoseRef w)" and "mutate m (obj, h) = (obj', h')"
  shows "obj' ''waypoint'' \<noteq> Some (PoseRef w) \<and> cells h' w = cells h w"
proof (cases m)
  case (SetItem k v)
  with assms show ?thesis by (auto split: if_splits)
next
  case (DelItem k)
  with assms show ?thesis by (auto split: if_splits)
next
  case (MutateWaypoint f)
  with assms show ?thesis
    by (auto split: option.splits field.splits)
qed

lemma mutate_all_keeps_cell:
  "obj ''waypoint'' \<noteq> Some (PoseRef w) \<Longrightarrow> cells (snd (mutate_all ms (obj, h))) w = cells h w"
proof (induction ms arbitrary: obj h)
  case Nil
  show ?case by simp
next
  case (Cons m ms)
  obtain obj' h' where step: "mutate m (obj, h) = (obj', h')"
    by (cases "mutate m (obj, h)")
  from mutate_keeps_cell [OF Cons.prems step]
  have keep: "obj' ''waypoint'' \<noteq> Some (PoseRef w)" and same: "cells h' w = cells h w"
    by simp_all
  from keep have "cells (snd (mutate_all ms (obj', h'))) w = cells h' w"
    by (rule Cons.IH)
  with same step show ?case by simp
qed

text \<open>
  C10. For a node whose waypoint is an allocated object, \<^verbatim>\<open>dump_object\<close> returns the
  base record with one more entry, \<^verbatim>\<open>"waypoint"\<close>, that refers to a new object (not the
  node's own) with the same pose; the node's own pose is untouched by the dump.
  \<^verbatim>\<open>from_object\<close> on any context, that dumped waypoint and any keywords gives a node
  whose waypoint is the dumped object, hence a pose equal to the original's. Whatever is
  done to the dumped record afterwards, the pose of the original node stays what it was.
\<close>

theorem dump_object_from_object_waypoint:
  assumes allocated: "waypoint self < next_addr h"
    and dump: "dump_object super_dump_object h self = (obj, h')"
  shows "\<exists>a. obj ''waypoint'' = Some (PoseRef a)
           \<and> a \<noteq> waypoint self
           \<and> cells h' a = cells h (waypoint self)
           \<and> cells h' (waypoint self) = cells h (waypoint self)
           \<and> (\<forall>k. k \<noteq> ''waypoint'' \<longrightarrow>
                 obj k = map_option BaseValue (super_dump_object (super self) k))
           \<and> waypoint (from_object super_init ctx a kwargs) = a
           \<and> cells h' (waypoint (from_object super_init ctx a kwargs)) = cells h (waypoint self)
           \<and> (\<forall>ms. cells (snd (mutate_all ms (obj, h'))) (waypoint self) = cells h (waypoint self))"
proof -
  obtain a h1 where copy: "Pose_copy h (waypoint self) = (a, h1)"
    by (cases "Pose_copy h (waypoint self)")
  from dump copy have obj: "obj = (map_option BaseValue \<circ> super_dump_object (super self))(''waypoint'' \<mapsto> PoseRef a)"
    and h': "h' = h1"
    by (simp_all add: dump_object_def)
  from Pose_copy_fresh [OF copy]
  have a: "a = next_addr h" and val: "cells h1 a = cells h (waypoint self)"
    and rest: "\<forall>c. c \<noteq> a \<longrightarrow> cells h1 c = cells h c"
    by blast+
  from a allocated have neq: "a \<noteq> waypoint self" by simp
  with rest have own: "cells h1 (waypoint self) = cells h (waypoint self)" by simp
  have entry: "obj ''waypoint'' = Some (PoseRef a)" by (simp add: obj)
  with neq have "obj ''waypoint'' \<noteq> Some (PoseRef (waypoint self))" by simp
  then have later: "\<forall>ms. cells (snd (mutate_all ms (obj, h1))) (waypoint self) = cells h (waypoint self)"
    using own by (simp add: mutate_all_keeps_cell)
  have base: "\<forall>k. k \<noteq> ''waypoint'' \<longrightarrow> obj k = map_option BaseValue (super_dump_object (super self) k)"
    by (simp add: obj)
  have restored: "waypoint (from_object super_init ctx a kwargs) = a"
    by (simp add: from_object_def MyWaypointNode_init_def)
  from entry neq val own base restored later show ?thesis
    unfolding h' by auto
qed

text \<open>
  The theorem at work: the node for waypoint \<^verbatim>\<open>wp1\<close> of the example mission, its pose
  at address 0 of a store that has handed out one address, and a base record with one
  entry. After the dump, the record's pose is moved and the entry deleted; the node's pose
  is still the one it had.
\<close>

theorem dump_object_from_object_waypoint_witness:
  "waypoint \<lparr>super = (), waypoint = 0, node_robot_id = ''robot''\<rparr>
     < next_addr \<lparr>cells = (\<lambda>_. \<lparr>pose_x = 0, pose_y = 0, pose_theta = 0, frameId = ''map'', waypointId = ''wp1''\<rparr>), next_addr = 1\<rparr>
   \<and> (\<exists>a. a \<noteq> (0::nat)
         \<and> fst (dump_object (\<lambda>_. [''label'' \<mapsto> ''go to waypoint''])
                \<lparr>cells = (\<lambda>_. \<lparr>pose_x = 0, pose_y = 0, pose_theta = 0, frameId = ''map'', waypointId = ''wp1''\<rparr>), next_addr = 1\<rparr>
                \<lparr>super = (), waypoint = 0, node_robot_id = ''robot''\<rparr>) ''waypoint'' = Some (PoseRef a)
         \<and> waypoint (from_object (\<lambda>(args :: unit list) (kwargs :: unit). ()) \<lparr>robot_api = \<lparr>robot_id = ''robot''\<rparr>\<rparr> a ()) = a
         \<and> cells (snd (mutate_all [MutateWaypoint (\<lambda>p. p\<lparr>pose_x := 5\<rparr>), DelItem ''waypoint'']
                (dump_object (\<lambda>_. [''label'' \<mapsto> ''go to waypoint''])
                   \<lparr>cells = (\<lambda>_. \<lparr>pose_x = 0, pose_y = 0, pose_theta = 0, frameId = ''map'', waypointId = ''wp1''\<rparr>), next_addr = 1\<rparr>
                   \<lparr>super = (), waypoint = 0, node_robot_id = ''robot''\<rparr>))) 0
             = \<lparr>pose_x = 0, pose_y = 0, pose_theta = 0, frameId = ''map'', waypointId = ''wp1''\<rparr>)"
proof -
  let ?wp = "\<lparr>pose_x = 0, pose_y = 0, pose_theta = 0, frameId = ''map'', waypointId = ''wp1''\<rparr>"
  let ?h = "\<lparr>cells = (\<lambda>_. ?wp), next_addr = 1\<rparr>"
  let ?self = "\<lparr>super = (), waypoint = 0 :: addr, node_robot_id = ''robot''\<rparr>"
  let ?sd = "\<lambda>_ :: unit. [''label'' \<mapsto> ''go to waypoint'']"
  let ?D = "dump_object ?sd ?h ?self"
  have allocated: "waypoint ?self < next_addr ?h" by simp
  have dump: "?D = (fst ?D, snd ?D)" by simp
  from dump_object_from_object_waypoint [OF allocated dump,
      of "\<lambda>(args :: unit list) (kwargs :: unit). ()" "\<lparr>robot_api = \<lparr>robot_id = ''robot''\<rparr>\<rparr>" "()"]
  obtain a where a: "fst ?D ''waypoint'' = Some (PoseRef a)" "a \<noteq> waypoint ?self"
    and r: "waypoint (from_object (\<lambda>(args :: unit list) (kwargs :: unit). ()) \<lparr>robot_api = \<lparr>robot_id = ''robot''\<rparr>\<rparr> a ()) = a"
    and m: "\<forall>ms. cells (snd (mutate_all ms (fst ?D, snd ?D))) (waypoint ?self) = cells ?h (waypoint ?self)"
    by blast
  from m have "cells (snd (mutate_all [MutateWaypoint (\<lambda>p. p\<lparr>pose_x := 5\<rparr>), DelItem ''waypoint''] ?D)) 0 = ?wp"
    by (simp del: mutate_all.simps)
  with allocated a r show ?thesis by auto
qed

subsection \<open>The mission of the example\<close>

text \<open>
  C4, as amended. The mission that \<^verbatim>\<open>main\<close> builds, compiled by \<^verbatim>\<open>MyTreeBuilder\<close> and
  executed on a platform where \<^verbatim>\<open>0 > 1\<close> evaluates to false, task reports are accepted
  and the merge target is valid, with no cancellation. The root ends \<open>SUCCEEDED\<close>. The
  nodes start in the order: root, the two data-set steps, waypoint \<^verbatim>\<open>wp1\<close>, the
  conditional, its else-branch and in it waypoint \<^verbatim>\<open>wpB\<close>; the custom leaf prints for
  \<^verbatim>\<open>wp1\<close> and then for \<^verbatim>\<open>wpB\<close> and never for \<^verbatim>\<open>wpA\<close>. The tasks reported complete
  are those of the executed steps, in step order: step 0, step 1, step 2, step 4. The
  then-branch node, which the tree builder has instantiated, is never executed: its
  sequence and its waypoint node are still \<open>PENDING\<close> at the end. Both data-set payloads
  are in the mission data.
\<close>

theorem example_mission_execution:
  assumes false: "\<And>d. evaluate env ''0 > 1'' d = Inr False"
    and reported: "\<And>t. reportTaskComplete env t"
    and valid: "\<And>d. merge_target_valid env d"
  shows "case execute env d0 (MyTreeBuilder ctx (mission_definition (example_mission mid rid))) of
           (t, d, evs) \<Rightarrow>
             node_state t = SUCCEEDED
           \<and> started evs =
               [None, Some ''set some data'', Some ''set more data'', Some ''go to waypoint'',
                Some ''if'', None, Some ''go to waypoint B'']
           \<and> printed evs =
               MyWaypointNode_execute
                 \<lparr>super = (), waypoint = example_waypoint ''wp1'', node_robot_id = robot_id (robot_api ctx)\<rparr>
               @ MyWaypointNode_execute
                 \<lparr>super = (), waypoint = example_waypoint ''wpB'', node_robot_id = robot_id (robot_api ctx)\<rparr>
           \<and> task_completions evs = [''step 0'', ''step 1'', ''step 2'', ''step 4'']
           \<and> branch_states t = [([PENDING, PENDING], [SUCCEEDED, SUCCEEDED])]
           \<and> states_labelled ''go to waypoint A'' t = [PENDING]
           \<and> states_labelled ''go to waypoint B'' t = [SUCCEEDED]
           \<and> d = AList.update ''key2'' ''value2'' (AList.update ''key'' ''value'' d0)"
  by (simp add: MyTreeBuilder_def DefaultTreeBuilder_def example_mission_def
      MyNodeFromStepBuilder_def NodeFromStepBuilder_def BehaviorTree_init_def
      MyWaypointNode_init_def MyWaypointNode_execute_def terminal_def succeed_def merge_data_def
      node_state_def states_labelled_def branches_def branch_states_def false reported valid)

text \<open>The same run on the platform \<open>example_env\<close>, for a robot \<^verbatim>\<open>r1\<close> and empty mission data.\<close>

theorem example_mission_execution_witness:
  "(\<forall>d. evaluate example_env ''0 > 1'' d = Inr False)
   \<and> (\<forall>t. reportTaskComplete example_env t)
   \<and> (\<forall>d. merge_target_valid example_env d)
   \<and> (case execute example_env []
              (MyTreeBuilder \<lparr>robot_api = \<lparr>robot_id = ''r1''\<rparr>\<rparr>
                 (mission_definition (example_mission ''m1'' ''r1''))) of
         (t, d, evs) \<Rightarrow>
           node_state t = SUCCEEDED
         \<and> task_completions evs = [''step 0'', ''step 1'', ''step 2'', ''step 4'']
         \<and> branch_states t = [([PENDING, PENDING], [SUCCEEDED, SUCCEEDED])]
         \<and> d = [(''key'', ''value''), (''key2'', ''value2'')])"
proof -
  have false: "\<And>d. evaluate example_env ''0 > 1'' d = Inr False"
    and reported: "\<And>t. reportTaskComplete example_env t"
    and valid: "\<And>d. merge_target_valid example_env d"
    by (simp_all add: example_env_def)
  from example_mission_execution [where env = example_env and ?d0.0 = "[]"
      and ctx = "\<lparr>robot_api = \<lparr>robot_id = ''r1''\<rparr>\<rparr>" and mid = "''m1''" and rid = "''r1''",
      OF false reported valid]
  show ?thesis using false reported valid
    by (auto split: prod.splits)
qed

text \<open>
  C4, as first stated, says that the then-branch node is never instantiated and that every
  step's \<^verbatim>\<open>completeTask\<close> is reported. Neither holds of the example: the tree that
  \<^verbatim>\<open>MyTreeBuilder\<close> compiles already holds the \<^verbatim>\<open>MyWaypointNode\<close> that
  \<^verbatim>\<open>visit_pose_waypoint\<close> constructs for waypoint \<^verbatim>\<open>wpA\<close> (lines 83-84), that node is
  still in the tree after the run, and \<^verbatim>\<open>step 3\<close>, the task of that step, is never
  reported.
\<close>

theorem example_mission_then_branch_instantiated:
  "CustomLeaf
     \<lparr>super = \<lparr>label = Some ''go to waypoint A'', state = PENDING, complete_task = Some ''step 3''\<rparr>,
      waypoint = example_waypoint ''wpA'', node_robot_id = ''r1''\<rparr>
     \<in> set (nodes (MyTreeBuilder \<lparr>robot_api = \<lparr>robot_id = ''r1''\<rparr>\<rparr>
                      (mission_definition (example_mission ''m1'' ''r1''))))
   \<and> CustomLeaf
       (with_complete_task_init ''step 3''
          (MyWaypointNode_init BehaviorTree_init \<lparr>robot_api = \<lparr>robot_id = ''r1''\<rparr>\<rparr>
             (example_waypoint ''wpA'') [] [(''label'', ''go to waypoint A'')]))
     \<in> set (nodes (fst (execute example_env []
                      (MyTreeBuilder \<lparr>robot_api = \<lparr>robot_id = ''r1''\<rparr>\<rparr>
                         (mission_definition (example_mission ''m1'' ''r1''))))))
   \<and> ''step 3'' \<notin> set (task_completions (snd (snd (execute example_env []
                      (MyTreeBuilder \<lparr>robot_api = \<lparr>robot_id = ''r1''\<rparr>\<rparr>
                         (mission_definition (example_mission ''m1'' ''r1'')))))))"
  by (simp add: MyTreeBuilder_def DefaultTreeBuilder_def example_mission_def
      MyNodeFromStepBuilder_def NodeFromStepBuilder_def BehaviorTree_init_def
      MyWaypointNode_init_def MyWaypointNode_execute_def terminal_def succeed_def merge_data_def
      node_state_def example_env_def with_complete_task_init_def)

end
